theory Spec2Isabelle
  imports Main
begin

section \<open>The realtime voice assistant component\<close>

text \<open>
  A shallow embedding of the script part of \<^verbatim>\<open>src/examples/realtime_voice_assistant.vue\<close>
  (the function of the component that creates its refs and handlers). Every \<^verbatim>\<open>ref\<close> of the component is a
  field of the record \<open>state\<close>; every handler is a function from states to states. What a
  handler does to the outside (frames handed to the socket, timers, the audio element's
  \<^verbatim>\<open>play()\<close>, HTTP requests) is appended to the field \<open>effects\<close>, in the order of the calls.
  The component is single threaded: one handler runs to its end for each event of the
  browser, so a run is a list of events folded over \<open>step\<close>.
\<close>

subsection \<open>Data\<close>

text \<open>The \<^verbatim>\<open>readyState\<close> of a WebSocket object.\<close>

datatype ready_state = CONNECTING | OPEN | CLOSING | CLOSED

text \<open>An element of \<^verbatim>\<open>audioQueue\<close>: the object \<^verbatim>\<open>{url, text}\<close>.\<close>

record audio_segment =
  seg_url :: string
  seg_text :: string

text \<open>
  An element of \<^verbatim>\<open>conversationHistory\<close>: the object \<^verbatim>\<open>{text, sender, className}\<close>.
  A text is \<open>None\<close> where the script stores \<^verbatim>\<open>undefined\<close> (a message without the field).
\<close>

datatype sender = User | Assistant

record conversation_entry =
  msg_text :: "string option"
  msg_sender :: sender
  className :: string

text \<open>
  Frames given to \<^verbatim>\<open>socket.send\<close>. The ping carries the value of \<^verbatim>\<open>Date.now()\<close>, which the
  event of the heartbeat timer supplies.
\<close>

datatype frame =
    Ping nat
  | StartCmd string
  | StopCmd
  | SetParams string string

datatype timer = ReconnectTimer | ConnectTimeoutTimer | GraceTimer | HeartbeatTimer | ProgressTimer

datatype request = GetAvailableModels | PostNewHistory

text \<open>
  The calls that leave the component. \<open>SocketClose\<close> is \<^verbatim>\<open>socket.value.close()\<close>: the script
  never passes a close code. \<open>Play u\<close> is the assignment of \<open>u\<close> to the audio element's
  \<^verbatim>\<open>src\<close> followed by \<^verbatim>\<open>play()\<close>.
\<close>

datatype effect =
    SocketSend frame
  | SocketClose
  | NewWebSocket string
  | SetTimeout timer nat
  | SetInterval timer nat
  | ClearTimer timer
  | Play string
  | Fetch request

text \<open>What \<^verbatim>\<open>handleConnectionError\<close> is called with (it only prints it).\<close>

datatype conn_error = TimeoutError | ErrorEvent | ConstructorError

text \<open>Exceptions caught by the \<^verbatim>\<open>try\<close> of \<^verbatim>\<open>handleServerMessage\<close>.\<close>

datatype js_error = SyntaxError | TypeError

text \<open>
  Log lines and status texts. The script builds them from fixed texts and a few values; one
  constructor stands for each text, with the values it interpolates. The clock prefix that
  \<^verbatim>\<open>addToLog\<close> puts before a line is left out. \<open>LogTtsAudio t\<close> is the line of line 371, which
  shows \<^verbatim>\<open>substring(0, 20)\<close> of the text \<open>t\<close> of the message; the constructor keeps the whole text.
\<close>

datatype log_line =
    LogConnecting
  | LogOpened
  | LogClosed nat "string option"
  | LogReconnectIn nat nat nat
  | LogConnectionError conn_error
  | LogNotConnected
  | LogClientId "string option"
  | LogChatStarted
  | LogChatStopped
  | LogMessageError js_error
  | LogServerError "string option"
  | LogTtsAudio string
  | LogAudioEnded
  | LogAudioError "string option"
  | LogModelsFailed
  | LogHistoryCreated string
  | LogHistoryFailed
  | LogParamsNotConnected
  | LogNoModel
  | LogNoHistoryId
  | LogParamsUpdated
  | LogPageLoaded

datatype status_text =
    StatusWaiting
  | StatusChatStarted
  | StatusChatStopped
  | StatusRecognized "string option"
  | StatusError "string option"

datatype connection_text = TextNotConnected | TextConnecting | TextConnected | TextFailed

text \<open>
  Inbound frames after \<^verbatim>\<open>JSON.parse\<close>. A field is \<open>None\<close> when the object has no such
  property. \<open>Malformed\<close> is a text that \<^verbatim>\<open>JSON.parse\<close> rejects, \<open>JsonNull\<close> the JSON value
  \<^verbatim>\<open>null\<close> (reading \<^verbatim>\<open>.type\<close> of it throws), \<open>OtherType\<close> any value whose \<^verbatim>\<open>type\<close> matches no
  \<^verbatim>\<open>case\<close> of the \<^verbatim>\<open>switch\<close>.
\<close>

datatype inbound =
    Connection "string option"
  | StartAck "string option"
  | StopAck "string option"
  | RecognitionResult "string option"
  | LlmStreamChunk "string option"
  | LlmResponse "string option"
  | ErrorMessage "string option"
  | TtsSentenceComplete "string option" "string option"
  | OtherType

datatype frame_data = Malformed | JsonNull | Decoded inbound

text \<open>
  The value of \<^verbatim>\<open>audioProgress\<close>: the literal 0, or the floating point number that the
  progress timer computes as \<^verbatim>\<open>currentTime / duration * 100\<close>. The model does not compute with
  such a number; \<open>js_number\<close> stands for the numbers the browser hands over.
\<close>

typedecl js_number

datatype progress = ProgressZero | ProgressValue js_number

text \<open>Results of the two \<^verbatim>\<open>fetch\<close> calls: the promise rejects, the status is not ok, or data.\<close>

datatype 'a fetched = FetchRejected | FetchNotOk | FetchOk 'a

text \<open>
  The state of the component. \<open>socket\<close> is \<open>None\<close> for \<^verbatim>\<open>null\<close> and otherwise the
  \<^verbatim>\<open>readyState\<close> of the object the ref holds. \<open>audioPlayer\<close> is \<open>None\<close> while the template
  ref is not bound and otherwise the \<^verbatim>\<open>src\<close> of the audio element. \<open>heartbeatInterval\<close> and
  \<open>progressInterval\<close> say whether the variable holds a timer handle. \<open>protocol\<close> and
  \<open>hostname\<close> are \<^verbatim>\<open>window.location.protocol\<close> and \<^verbatim>\<open>window.location.hostname\<close>;
  \<open>hostClasses\<close> are the CSS classes of the elements of the document that this component
  does not render.
\<close>

record state =
  apiUrl :: string
  socket :: "ready_state option"
  isConnected :: bool
  isVoiceChatting :: bool
  isSpeaking :: bool
  clientId :: "string option"
  historyId :: string
  selectedModel :: string
  availableModels :: "string list"
  audioQueue :: "audio_segment list"
  currentAudio :: "audio_segment option"
  audioPlayer :: "string option"
  isPlaying :: bool
  audioProgress :: progress
  statusText :: status_text
  connectionStatusText :: connection_text
  connectionStatusClass :: string
  conversationHistory :: "conversation_entry list"
  logs :: "log_line list"
  reconnectCount :: nat
  heartbeatInterval :: bool
  progressInterval :: bool
  effects :: "effect list"
  protocol :: string
  hostname :: string
  hostClasses :: "string list"

definition maxReconnectAttempts :: nat where
  "maxReconnectAttempts = 3"

definition reconnectDelay :: nat where
  "reconnectDelay = 1000"

subsection \<open>Tool functions\<close>

text \<open>
  Lines 387 to 411 of the script. \<open>emit\<close> records a call that leaves the component.
\<close>

definition emit :: "effect \<Rightarrow> state \<Rightarrow> state" where
  "emit e s = s\<lparr>effects := effects s @ [e]\<rparr>"

definition updateConnectionStatus :: "connection_text \<Rightarrow> string \<Rightarrow> state \<Rightarrow> state" where
  "updateConnectionStatus txt status s =
     s\<lparr>connectionStatusText := txt, connectionStatusClass := status\<rparr>"

definition updateStatus :: "status_text \<Rightarrow> state \<Rightarrow> state" where
  "updateStatus message s = s\<lparr>statusText := message\<rparr>"

definition addToLog :: "log_line \<Rightarrow> state \<Rightarrow> state" where
  "addToLog message s = s\<lparr>logs := logs s @ [message]\<rparr>"

definition addMessageToConversation ::
  "string option \<Rightarrow> sender \<Rightarrow> string \<Rightarrow> state \<Rightarrow> state" where
  "addMessageToConversation txt sndr cls s =
     s\<lparr>conversationHistory := conversationHistory s @
          [\<lparr>msg_text = txt, msg_sender = sndr, className = cls\<rparr>]\<rparr>"

text \<open>What JavaScript's \<^verbatim>\<open>+\<close> and template strings make of a value that may be undefined.\<close>

definition js_string :: "string option \<Rightarrow> string" where
  "js_string v = (case v of None \<Rightarrow> ''undefined'' | Some x \<Rightarrow> x)"

text \<open>A string value is truthy when it is there and not empty.\<close>

definition truthy :: "string option \<Rightarrow> bool" where
  "truthy v = (case v of None \<Rightarrow> False | Some x \<Rightarrow> x \<noteq> [])"

text \<open>
  \<^verbatim>\<open>conversationHistory.value.find(msg => msg.className === ...)\<close> followed by
  \<^verbatim>\<open>lastMessage.text += text\<close>: the first entry of that class gets the text appended, in place.
\<close>

fun append_first :: "string \<Rightarrow> string option \<Rightarrow> conversation_entry list \<Rightarrow> conversation_entry list" where
  "append_first cls txt [] = []"
| "append_first cls txt (m # ms) =
     (if className m = cls
      then m\<lparr>msg_text := Some (js_string (msg_text m) @ js_string txt)\<rparr> # ms
      else m # append_first cls txt ms)"

definition appendToLastMessage :: "string option \<Rightarrow> state \<Rightarrow> state" where
  "appendToLastMessage txt s =
     s\<lparr>conversationHistory :=
          append_first ''assistant-response-building'' txt (conversationHistory s)\<rparr>"

text \<open>
  The CSS classes of the elements the template renders in a state: the fixed ones, the value
  of \<^verbatim>\<open>connectionStatusClass\<close>, the blocks under \<^verbatim>\<open>v-if\<close>, and for every conversation entry
  \<^verbatim>\<open>user-message\<close> or \<^verbatim>\<open>assistant-message\<close> by its sender (template lines 67 to 71: the
  \<^verbatim>\<open>className\<close> of an entry is not bound to anything).
\<close>

definition renderedClasses :: "state \<Rightarrow> string list" where
  "renderedClasses s =
     [''card'', ''config-row'', ''btn-group'', ''neutral'', ''secondary'', ''status'',
      connectionStatusClass s, ''config-panel'', ''primary'']
     @ (if isVoiceChatting s
        then [''voice-status'', ''status-text'', ''voice-indicator'']
             @ (if isSpeaking s then [''active''] else [])
        else [])
     @ [''conversation'']
     @ map (\<lambda>m. if msg_sender m = User then ''user-message'' else ''assistant-message'')
         (conversationHistory s)
     @ [''audio-queue'']
     @ (if isPlaying s
        then [''playing-status'', ''audio-progress'', ''progress-bar'', ''progress'']
        else [])
     @ (if audioQueue s \<noteq> [] \<and> \<not> isPlaying s then [''queue-status''] else [])
     @ [''log'']"

text \<open>\<^verbatim>\<open>document.querySelector('.' + cls)\<close> finds an element.\<close>

definition querySelector :: "string \<Rightarrow> state \<Rightarrow> bool" where
  "querySelector cls s = (List.member (hostClasses s) cls \<or> List.member (renderedClasses s) cls)"

definition fullUrl :: "state \<Rightarrow> string \<Rightarrow> string" where
  "fullUrl s u = protocol s @ ''//'' @ hostname s @ '':8000'' @ u"

text \<open>
  \<^verbatim>\<open>close()\<close> of the WebSocket interface: nothing on a socket that is closing or closed,
  otherwise the socket is closing.
\<close>

definition ws_close :: "ready_state \<Rightarrow> ready_state" where
  "ws_close rs = (if rs = CLOSED then CLOSED else CLOSING)"

text \<open>The literal of line 418 (four characters for "voice reply"), as its UTF-8 bytes.\<close>

definition voiceReplyText :: string where
  "voiceReplyText =
     [CHR 0xE8, CHR 0xAF, CHR 0xAD, CHR 0xE9, CHR 0x9F, CHR 0xB3,
      CHR 0xE5, CHR 0x9B, CHR 0x9E, CHR 0xE5, CHR 0xA4, CHR 0x8D]"

subsection \<open>Audio playback\<close>

text \<open>
  Lines 414 to 481. \<^verbatim>\<open>audioQueue.value.shift()\<close> removes the head and does nothing on an
  empty array, which is \<open>tl\<close>. The promise of \<^verbatim>\<open>play()\<close> is rejected in a later turn of the
  event loop; its \<^verbatim>\<open>catch\<close> calls \<^verbatim>\<open>onAudioError\<close>, as the \<^verbatim>\<open>error\<close> event of the element
  does, so both are the event \<open>AudioError\<close> of a run. The argument of \<open>onAudioError\<close> is the
  \<^verbatim>\<open>message\<close> property of what it is called with.
\<close>

definition playNextAudio :: "state \<Rightarrow> state" where
  "playNextAudio s =
     (case audioQueue s of
        [] \<Rightarrow> s
      | a # _ \<Rightarrow>
          if \<not> isPlaying s
          then (let s1 = s\<lparr>isPlaying := True, currentAudio := Some a, audioProgress := ProgressZero\<rparr>
                in case audioPlayer s1 of
                     None \<Rightarrow> s1
                   | Some _ \<Rightarrow> emit (Play (seg_url a)) (s1\<lparr>audioPlayer := Some (seg_url a)\<rparr>))
          else s)"

definition onAudioEnded :: "state \<Rightarrow> state" where
  "onAudioEnded s =
     playNextAudio
       ((addToLog LogAudioEnded s)
          \<lparr>audioQueue := tl (audioQueue s), currentAudio := None, isPlaying := False\<rparr>)"

definition onAudioError :: "string option \<Rightarrow> state \<Rightarrow> state" where
  "onAudioError message s =
     playNextAudio
       ((addToLog (LogAudioError (if truthy message then message else None)) s)
          \<lparr>audioQueue := tl (audioQueue s), currentAudio := None, isPlaying := False\<rparr>)"

definition playAudioResponse :: "string \<Rightarrow> state \<Rightarrow> state" where
  "playAudioResponse u s =
     (let s1 = s\<lparr>audioQueue := audioQueue s @ [\<lparr>seg_url = fullUrl s u, seg_text = voiceReplyText\<rparr>]\<rparr>
      in if currentAudio s1 = None then playNextAudio s1 else s1)"

definition startProgressUpdate :: "state \<Rightarrow> state" where
  "startProgressUpdate s =
     emit (SetInterval ProgressTimer 100)
       ((if progressInterval s then emit (ClearTimer ProgressTimer) s else s)
          \<lparr>progressInterval := True\<rparr>)"

definition onAudioCanPlay :: "state \<Rightarrow> state" where
  "onAudioCanPlay s = startProgressUpdate (s\<lparr>audioProgress := ProgressZero\<rparr>)"

subsection \<open>Message handlers\<close>

text \<open>Lines 295 to 384.\<close>

definition handleRecognitionResult :: "string option \<Rightarrow> state \<Rightarrow> state" where
  "handleRecognitionResult txt s =
     (updateStatus (StatusRecognized txt) (addMessageToConversation txt User [] s))
       \<lparr>isSpeaking := False\<rparr>"

definition handleLLMStreamChunk :: "string option \<Rightarrow> state \<Rightarrow> state" where
  "handleLLMStreamChunk content s =
     appendToLastMessage content
       (if \<not> querySelector ''assistant-response-building'' s
        then addMessageToConversation (Some []) Assistant ''assistant-response-building'' s
        else s)"

definition handleLLMResponse :: "string option \<Rightarrow> state \<Rightarrow> state" where
  "handleLLMResponse audio_url s =
     (case audio_url of
        None \<Rightarrow> s
      | Some u \<Rightarrow> if u \<noteq> [] then playAudioResponse u s else s)"

definition handleError :: "string option \<Rightarrow> state \<Rightarrow> state" where
  "handleError message s = updateStatus (StatusError message) (addToLog (LogServerError message) s)"

text \<open>
  \<^verbatim>\<open>message.text.substring(0, 20)\<close> throws a TypeError when the message has no text; this
  happens while the argument of \<^verbatim>\<open>addToLog\<close> is computed, before any ref is written.
\<close>

definition handleTTSSentenceComplete ::
  "string option \<Rightarrow> string option \<Rightarrow> state \<Rightarrow> js_error + state" where
  "handleTTSSentenceComplete txt audio_url s =
     (case audio_url of
        None \<Rightarrow> Inr s
      | Some u \<Rightarrow>
          if u \<noteq> []
          then (case txt of
                  None \<Rightarrow> Inl TypeError
                | Some t \<Rightarrow>
                    (let s1 = addToLog (LogTtsAudio t) s;
                         s2 = s1\<lparr>audioQueue := audioQueue s1 @
                                  [\<lparr>seg_url = fullUrl s u, seg_text = t\<rparr>]\<rparr>
                     in Inr (if \<not> isPlaying s2 then playNextAudio s2 else s2)))
          else Inr s)"

definition handleServerMessage :: "frame_data \<Rightarrow> state \<Rightarrow> state" where
  "handleServerMessage d s =
     (case d of
        Malformed \<Rightarrow> addToLog (LogMessageError SyntaxError) s
      | JsonNull \<Rightarrow> addToLog (LogMessageError TypeError) s
      | Decoded m \<Rightarrow>
          (case m of
             Connection cid \<Rightarrow> addToLog (LogClientId cid) (s\<lparr>clientId := cid\<rparr>)
           | StartAck st \<Rightarrow> if st = Some ''success'' then addToLog LogChatStarted s else s
           | StopAck st \<Rightarrow> if st = Some ''success'' then addToLog LogChatStopped s else s
           | RecognitionResult txt \<Rightarrow> handleRecognitionResult txt s
           | LlmStreamChunk content \<Rightarrow> handleLLMStreamChunk content s
           | LlmResponse audio_url \<Rightarrow> handleLLMResponse audio_url s
           | ErrorMessage message \<Rightarrow> handleError message s
           | TtsSentenceComplete txt audio_url \<Rightarrow>
               (case handleTTSSentenceComplete txt audio_url s of
                  Inl e \<Rightarrow> addToLog (LogMessageError e) s
                | Inr s' \<Rightarrow> s')
           | OtherType \<Rightarrow> s))"

subsection \<open>Connection handling\<close>

text \<open>
  Lines 153 to 262. \<^verbatim>\<open>maxReconnectAttempts\<close> and \<^verbatim>\<open>reconnectDelay\<close> are refs that nothing
  writes, hence the constants above.
\<close>

definition stopHeartbeat :: "state \<Rightarrow> state" where
  "stopHeartbeat s =
     (if heartbeatInterval s
      then emit (ClearTimer HeartbeatTimer) (s\<lparr>heartbeatInterval := False\<rparr>)
      else s)"

definition startHeartbeat :: "state \<Rightarrow> state" where
  "startHeartbeat s =
     emit (SetInterval HeartbeatTimer 10000) ((stopHeartbeat s)\<lparr>heartbeatInterval := True\<rparr>)"

text \<open>The callback of the heartbeat timer; \<open>now\<close> is \<^verbatim>\<open>Date.now()\<close>.\<close>

definition heartbeatTick :: "nat \<Rightarrow> state \<Rightarrow> state" where
  "heartbeatTick now s =
     (if socket s = Some OPEN then emit (SocketSend (Ping now)) s else stopHeartbeat s)"

text \<open>
  The block both handlers end with: when the counter is below the maximum, count the attempt,
  log it and set the timer that calls \<^verbatim>\<open>connectWebSocket\<close>.
\<close>

definition scheduleReconnect :: "state \<Rightarrow> state" where
  "scheduleReconnect s =
     (let s1 = s\<lparr>reconnectCount := reconnectCount s + 1\<rparr>;
          delay = reconnectDelay * reconnectCount s1
      in emit (SetTimeout ReconnectTimer delay)
           (addToLog (LogReconnectIn delay (reconnectCount s1) maxReconnectAttempts) s1))"

text \<open>\<^verbatim>\<open>handleDisconnect(event)\<close>, with \<^verbatim>\<open>event.code\<close> and \<^verbatim>\<open>event.reason\<close>.\<close>

definition handleDisconnect :: "nat \<Rightarrow> string \<Rightarrow> state \<Rightarrow> state" where
  "handleDisconnect code reason s =
     (let s1 = (stopHeartbeat s)\<lparr>isConnected := False, isVoiceChatting := False, isSpeaking := False\<rparr>;
          s2 = updateConnectionStatus TextNotConnected ''disconnected'' s1;
          s3 = addToLog (LogClosed code (if reason \<noteq> [] then Some reason else None)) s2
      in if code \<noteq> 1000 \<and> reconnectCount s3 < maxReconnectAttempts
         then scheduleReconnect s3
         else s3)"

definition handleConnectionError :: "conn_error \<Rightarrow> state \<Rightarrow> state" where
  "handleConnectionError err s =
     (let s1 = addToLog (LogConnectionError err) s;
          s2 = updateConnectionStatus TextFailed ''disconnected'' s1
      in if reconnectCount s2 < maxReconnectAttempts
         then scheduleReconnect s2
         else s2)"

definition fetchAvailableModels :: "state \<Rightarrow> state" where
  "fetchAvailableModels s = emit (Fetch GetAvailableModels) s"

text \<open>
  \<^verbatim>\<open>connectWebSocket\<close> is an async function. \<open>connectWebSocket_open\<close> is its part from
  \<^verbatim>\<open>updateConnectionStatus\<close> on; \<open>ok\<close> says whether \<^verbatim>\<open>new WebSocket(apiUrl.value)\<close> returns
  (it throws on a URL it does not accept, and the \<^verbatim>\<open>catch\<close> calls
  \<^verbatim>\<open>handleConnectionError\<close>). \<open>connectWebSocket\<close> is the part that runs at the call: with a
  socket in the ref it closes it and waits 500 ms; \<open>connectWebSocket_resume\<close> runs after
  the wait.
\<close>

definition connectWebSocket_open :: "bool \<Rightarrow> state \<Rightarrow> state" where
  "connectWebSocket_open ok s =
     (let s1 = addToLog LogConnecting (updateConnectionStatus TextConnecting ''processing'' s)
      in if ok
         then emit (SetTimeout ConnectTimeoutTimer 5000)
                (emit (NewWebSocket (apiUrl s1)) (s1\<lparr>socket := Some CONNECTING\<rparr>))
         else handleConnectionError ConstructorError s1)"

definition connectWebSocket :: "bool \<Rightarrow> state \<Rightarrow> state" where
  "connectWebSocket ok s =
     (case socket s of
        None \<Rightarrow> connectWebSocket_open ok s
      | Some rs \<Rightarrow> emit (SetTimeout GraceTimer 500) (emit SocketClose (s\<lparr>socket := Some (ws_close rs)\<rparr>)))"

definition connectWebSocket_resume :: "bool \<Rightarrow> state \<Rightarrow> state" where
  "connectWebSocket_resume ok s = connectWebSocket_open ok (s\<lparr>socket := None\<rparr>)"

text \<open>The callback of the 5 s timer set by \<^verbatim>\<open>connectWebSocket\<close>.\<close>

definition connectionTimeout :: "state \<Rightarrow> state" where
  "connectionTimeout s =
     (case socket s of
        None \<Rightarrow> s
      | Some rs \<Rightarrow>
          if rs \<noteq> OPEN
          then handleConnectionError TimeoutError (emit SocketClose (s\<lparr>socket := Some (ws_close rs)\<rparr>))
          else s)"

text \<open>The \<^verbatim>\<open>onopen\<close> handler that \<^verbatim>\<open>connectWebSocket\<close> installs.\<close>

definition onopen :: "state \<Rightarrow> state" where
  "onopen s =
     startHeartbeat
       (fetchAvailableModels
          (addToLog LogOpened
             (updateConnectionStatus TextConnected ''connected''
                ((emit (ClearTimer ConnectTimeoutTimer) s)\<lparr>isConnected := True, reconnectCount := 0\<rparr>))))"

definition disconnectWebSocket :: "state \<Rightarrow> state" where
  "disconnectWebSocket s =
     (case socket s of
        None \<Rightarrow> s
      | Some rs \<Rightarrow> emit SocketClose (s\<lparr>socket := Some (ws_close rs)\<rparr>))"

subsection \<open>Voice chat, parameters, history\<close>

text \<open>Lines 265 to 292 and 484 to 537.\<close>

definition startVoiceChat :: "state \<Rightarrow> state" where
  "startVoiceChat s =
     (if socket s \<noteq> Some OPEN
      then addToLog LogNotConnected s
      else updateStatus StatusChatStarted
             ((emit (SocketSend (StartCmd ''ws://127.0.0.1:8765'')) s)\<lparr>isVoiceChatting := True\<rparr>))"

definition stopVoiceChat :: "state \<Rightarrow> state" where
  "stopVoiceChat s =
     (if socket s \<noteq> Some OPEN
      then s
      else updateStatus StatusChatStopped
             ((emit (SocketSend StopCmd) s)\<lparr>isVoiceChatting := False, isSpeaking := False\<rparr>))"

definition updateParams :: "state \<Rightarrow> state" where
  "updateParams s =
     (if socket s \<noteq> Some OPEN then addToLog LogParamsNotConnected s
      else if selectedModel s = [] then addToLog LogNoModel s
      else if historyId s = [] then addToLog LogNoHistoryId s
      else addToLog LogParamsUpdated
             (emit (SocketSend (SetParams (selectedModel s) (historyId s))) s))"

text \<open>The two HTTP calls: the request, and what runs when the response is there.\<close>

definition modelsFetched :: "string list fetched \<Rightarrow> state \<Rightarrow> state" where
  "modelsFetched r s =
     (case r of
        FetchRejected \<Rightarrow> addToLog LogModelsFailed s
      | FetchNotOk \<Rightarrow> s
      | FetchOk ms \<Rightarrow>
          s\<lparr>availableModels := ms,
            selectedModel := (case ms of [] \<Rightarrow> [] | m # _ \<Rightarrow> m)\<rparr>)"

definition createNewHistory :: "state \<Rightarrow> state" where
  "createNewHistory s = emit (Fetch PostNewHistory) s"

definition historyFetched :: "string fetched \<Rightarrow> state \<Rightarrow> state" where
  "historyFetched r s =
     (case r of
        FetchRejected \<Rightarrow> addToLog LogHistoryFailed s
      | FetchNotOk \<Rightarrow> s
      | FetchOk h \<Rightarrow> updateParams (addToLog (LogHistoryCreated h) (s\<lparr>historyId := h\<rparr>)))"

text \<open>
  The callback of the 100 ms timer. \<open>p\<close> is \<open>None\<close> when the \<^verbatim>\<open>duration\<close> of the audio element
  is not truthy, and otherwise the number \<^verbatim>\<open>currentTime / duration * 100\<close>.
\<close>

definition progressTick :: "js_number option \<Rightarrow> state \<Rightarrow> state" where
  "progressTick p s =
     (case audioPlayer s of
        None \<Rightarrow> s
      | Some _ \<Rightarrow> (case p of None \<Rightarrow> s | Some v \<Rightarrow> s\<lparr>audioProgress := ProgressValue v\<rparr>))"

subsection \<open>Life cycle and runs\<close>

text \<open>
  The refs as the component creates them, for a page with the given location and classes, and
  the state once the component is mounted: the audio element is bound to its ref and
  \<^verbatim>\<open>onMounted\<close> has logged.
\<close>

definition initial_refs :: "string \<Rightarrow> string \<Rightarrow> string list \<Rightarrow> state" where
  "initial_refs proto host classes =
     \<lparr>apiUrl = ''ws://localhost:8000/ws/realtime-voice-chat'',
      socket = None, isConnected = False, isVoiceChatting = False, isSpeaking = False,
      clientId = None, historyId = [], selectedModel = [], availableModels = [],
      audioQueue = [], currentAudio = None, audioPlayer = None, isPlaying = False,
      audioProgress = ProgressZero, statusText = StatusWaiting,
      connectionStatusText = TextNotConnected, connectionStatusClass = ''disconnected'',
      conversationHistory = [], logs = [], reconnectCount = 0,
      heartbeatInterval = False, progressInterval = False, effects = [],
      protocol = proto, hostname = host, hostClasses = classes\<rparr>"

definition mounted :: "string \<Rightarrow> string \<Rightarrow> string list \<Rightarrow> state" where
  "mounted proto host classes =
     addToLog LogPageLoaded ((initial_refs proto host classes)\<lparr>audioPlayer := Some []\<rparr>)"

definition onUnmounted :: "state \<Rightarrow> state" where
  "onUnmounted s =
     (let s1 = stopHeartbeat s;
          s2 = (case socket s1 of
                  None \<Rightarrow> s1
                | Some rs \<Rightarrow> emit SocketClose (s1\<lparr>socket := Some (ws_close rs)\<rparr>))
      in if progressInterval s2 then emit (ClearTimer ProgressTimer) s2 else s2)"

text \<open>
  The events of a mounted component: clicks and inputs of the user, events of the socket,
  of the timers, of the audio element and of the HTTP calls. \<open>ReadyStateChanged\<close> is the
  browser moving the socket of the ref to another \<^verbatim>\<open>readyState\<close>; no handler runs. Any
  event may come in any state: the buttons' \<^verbatim>\<open>disabled\<close> attributes and the order in which
  a browser delivers events are not assumed.
\<close>

datatype event =
    ClickConnect bool
  | ReconnectTimerFired bool
  | GraceElapsed bool
  | ConnectionTimeoutFired
  | SocketOpened
  | SocketClosed nat string
  | SocketError
  | SocketMessage frame_data
  | ReadyStateChanged ready_state
  | HeartbeatFired nat
  | ClickDisconnect
  | ClickStartVoiceChat
  | ClickStopVoiceChat
  | AudioEnded
  | AudioError "string option"
  | AudioCanPlay
  | ProgressFired "js_number option"
  | InputApiUrl string
  | InputHistoryId string
  | InputSelectedModel string
  | ChangeParams
  | ClickCreateNewHistory
  | HistoryResponse "string fetched"
  | ModelsResponse "string list fetched"

fun step :: "state \<Rightarrow> event \<Rightarrow> state" where
  "step s (ClickConnect ok) = connectWebSocket ok s"
| "step s (ReconnectTimerFired ok) = connectWebSocket ok s"
| "step s (GraceElapsed ok) = connectWebSocket_resume ok s"
| "step s ConnectionTimeoutFired = connectionTimeout s"
| "step s SocketOpened = onopen s"
| "step s (SocketClosed code reason) = handleDisconnect code reason s"
| "step s SocketError = handleConnectionError ErrorEvent s"
| "step s (SocketMessage d) = handleServerMessage d s"
| "step s (ReadyStateChanged rs) = (case socket s of None \<Rightarrow> s | Some _ \<Rightarrow> s\<lparr>socket := Some rs\<rparr>)"
| "step s (HeartbeatFired now) = heartbeatTick now s"
| "step s ClickDisconnect = disconnectWebSocket s"
| "step s ClickStartVoiceChat = startVoiceChat s"
| "step s ClickStopVoiceChat = stopVoiceChat s"
| "step s AudioEnded = onAudioEnded s"
| "step s (AudioError message) = onAudioError message s"
| "step s AudioCanPlay = onAudioCanPlay s"
| "step s (ProgressFired p) = progressTick p s"
| "step s (InputApiUrl u) = s\<lparr>apiUrl := u\<rparr>"
| "step s (InputHistoryId h) = s\<lparr>historyId := h\<rparr>"
| "step s (InputSelectedModel m) = s\<lparr>selectedModel := m\<rparr>"
| "step s ChangeParams = updateParams s"
| "step s ClickCreateNewHistory = createNewHistory s"
| "step s (HistoryResponse r) = historyFetched r s"
| "step s (ModelsResponse r) = modelsFetched r s"

definition run :: "state \<Rightarrow> event list \<Rightarrow> state" where
  "run s evs = foldl step s evs"

subsection \<open>Observations of a run\<close>

text \<open>
  The URLs handed to the audio element, the delays of the reconnect timers and the frames given
  to the socket, each in the order of the calls.
\<close>

fun played :: "effect list \<Rightarrow> string list" where
  "played [] = []"
| "played (Play u # es) = u # played es"
| "played (_ # es) = played es"

fun reconnectDelays :: "effect list \<Rightarrow> nat list" where
  "reconnectDelays [] = []"
| "reconnectDelays (SetTimeout ReconnectTimer d # es) = d # reconnectDelays es"
| "reconnectDelays (_ # es) = reconnectDelays es"

fun sentFrames :: "effect list \<Rightarrow> frame list" where
  "sentFrames [] = []"
| "sentFrames (SocketSend f # es) = f # sentFrames es"
| "sentFrames (_ # es) = sentFrames es"

text \<open>
  The segments that a list of events asks to enqueue, in the order of the events: a
  \<^verbatim>\<open>tts_sentence_complete\<close> message with a text and a non-empty \<^verbatim>\<open>audio_url\<close>, or an
  \<^verbatim>\<open>llm_response\<close> message with a non-empty \<^verbatim>\<open>audio_url\<close>. \<open>p\<close> and \<open>h\<close> are the protocol and
  the host name of the page.
\<close>

fun enqueued :: "string \<Rightarrow> string \<Rightarrow> event \<Rightarrow> audio_segment list" where
  "enqueued p h (SocketMessage (Decoded (TtsSentenceComplete (Some t) (Some u)))) =
     (if u \<noteq> [] then [\<lparr>seg_url = p @ ''//'' @ h @ '':8000'' @ u, seg_text = t\<rparr>] else [])"
| "enqueued p h (SocketMessage (Decoded (LlmResponse (Some u)))) =
     (if u \<noteq> [] then [\<lparr>seg_url = p @ ''//'' @ h @ '':8000'' @ u, seg_text = voiceReplyText\<rparr>] else [])"
| "enqueued p h _ = []"

definition arrivals :: "string \<Rightarrow> string \<Rightarrow> event list \<Rightarrow> audio_segment list" where
  "arrivals p h evs = concat (map (enqueued p h) evs)"

text \<open>
  The state of the queue as the data model describes it: something plays exactly when the
  queue is not empty, the segment marked as current is the head of the queue, and the audio
  element holds the URL of the head.
\<close>

definition audio_ok :: "state \<Rightarrow> bool" where
  "audio_ok s =
     (isPlaying s = (audioQueue s \<noteq> []) \<and>
      currentAudio s = (case audioQueue s of [] \<Rightarrow> None | a # _ \<Rightarrow> Some a) \<and>
      (case audioQueue s of [] \<Rightarrow> audioPlayer s \<noteq> None | a # _ \<Rightarrow> audioPlayer s = Some (seg_url a)))"

text \<open>The two markers of a playing segment agree.\<close>

definition markers_agree :: "state \<Rightarrow> bool" where
  "markers_agree s = (isPlaying s = (currentAudio s \<noteq> None))"

text \<open>Projections and case distinctions used in the proofs.\<close>

definition audio_part ::
  "state \<Rightarrow> audio_segment list \<times> audio_segment option \<times> bool \<times> string option \<times> string list \<times> string \<times> string" where
  "audio_part s =
     (audioQueue s, currentAudio s, isPlaying s, audioPlayer s, played (effects s), protocol s, hostname s)"

definition reconnect_part :: "state \<Rightarrow> nat \<times> nat list" where
  "reconnect_part s = (reconnectCount s, reconnectDelays (effects s))"

definition waiting :: "state \<Rightarrow> string list" where
  "waiting s = played (effects s) @ map seg_url (tl (audioQueue s))"

fun audio_event :: "event \<Rightarrow> bool" where
  "audio_event AudioEnded = True"
| "audio_event (AudioError _) = True"
| "audio_event (SocketMessage (Decoded (LlmResponse _))) = True"
| "audio_event (SocketMessage (Decoded (TtsSentenceComplete _ _))) = True"
| "audio_event _ = False"

definition reconnect_step :: "state \<Rightarrow> state \<Rightarrow> bool" where
  "reconnect_step s s' =
     (reconnect_part s' = reconnect_part s \<or>
      (reconnectCount s < maxReconnectAttempts \<and>
       reconnect_part s' =
         (Suc (reconnectCount s), reconnectDelays (effects s) @ [reconnectDelay * Suc (reconnectCount s)])))"


section \<open>Properties\<close>

subsection \<open>Auxiliary facts\<close>

lemmas tool_defs = emit_def updateConnectionStatus_def updateStatus_def addToLog_def
  addMessageToConversation_def

lemma played_append [simp]: "played (xs @ ys) = played xs @ played ys"
  by (induction xs rule: played.induct) simp_all

lemma reconnectDelays_append [simp]:
  "reconnectDelays (xs @ ys) = reconnectDelays xs @ reconnectDelays ys"
  by (induction xs rule: reconnectDelays.induct) simp_all

lemmas conn_defs = stopHeartbeat_def startHeartbeat_def heartbeatTick_def scheduleReconnect_def
  handleDisconnect_def handleConnectionError_def fetchAvailableModels_def connectWebSocket_open_def
  connectWebSocket_def connectWebSocket_resume_def connectionTimeout_def onopen_def
  disconnectWebSocket_def startVoiceChat_def stopVoiceChat_def updateParams_def modelsFetched_def
  createNewHistory_def historyFetched_def progressTick_def

lemmas audio_defs = playNextAudio_def onAudioEnded_def onAudioError_def playAudioResponse_def
  startProgressUpdate_def onAudioCanPlay_def

lemmas msg_defs = handleRecognitionResult_def handleLLMStreamChunk_def handleLLMResponse_def
  handleError_def handleTTSSentenceComplete_def handleServerMessage_def appendToLastMessage_def

lemma handleServerMessage_audio_part:
  "\<not> audio_event (SocketMessage d) \<Longrightarrow> audio_part (handleServerMessage d s) = audio_part s"
proof (cases d)
  case (Decoded m)
  assume "\<not> audio_event (SocketMessage d)"
  with Decoded show ?thesis
    by (cases m) (simp_all add: handleServerMessage_def tool_defs audio_part_def
        handleRecognitionResult_def handleLLMStreamChunk_def handleError_def appendToLastMessage_def)
qed (simp_all add: handleServerMessage_def tool_defs audio_part_def)

lemma step_audio_part: "\<not> audio_event e \<Longrightarrow> audio_part (step s e) = audio_part s"
proof (cases e)
  case (SocketMessage d)
  assume "\<not> audio_event e"
  with SocketMessage show ?thesis by (simp add: handleServerMessage_audio_part)
qed (simp_all add: audio_part_def conn_defs tool_defs Let_def
      startProgressUpdate_def onAudioCanPlay_def split: option.splits fetched.splits)

lemma audio_ok_cong: "audio_part s' = audio_part s \<Longrightarrow> audio_ok s' = audio_ok s"
  by (auto simp add: audio_part_def audio_ok_def split: list.splits)

lemma waiting_cong: "audio_part s' = audio_part s \<Longrightarrow> waiting s' = waiting s"
  by (simp add: audio_part_def waiting_def)

lemma enqueued_non_audio: "\<not> audio_event e \<Longrightarrow> enqueued p h e = []"
  by (cases "(p, h, e)" rule: enqueued.cases) simp_all

lemma playNextAudio_idle: "audioQueue s = [] \<Longrightarrow> playNextAudio s = s"
  by (simp add: playNextAudio_def)

lemma playNextAudio_busy: "isPlaying s \<Longrightarrow> playNextAudio s = s"
  by (simp add: playNextAudio_def split: list.splits)

lemma playNextAudio_start:
  "audioQueue s = a # q \<Longrightarrow> \<not> isPlaying s \<Longrightarrow> audioPlayer s = Some x \<Longrightarrow>
   playNextAudio s =
     s\<lparr>isPlaying := True, currentAudio := Some a, audioProgress := ProgressZero,
       audioPlayer := Some (seg_url a), effects := effects s @ [Play (seg_url a)]\<rparr>"
  by (simp add: playNextAudio_def emit_def)

lemma audio_ok_idle:
  "audio_ok s \<Longrightarrow> audioQueue s = [] \<Longrightarrow>
   \<not> isPlaying s \<and> currentAudio s = None \<and> (\<exists>x. audioPlayer s = Some x)"
  by (auto simp add: audio_ok_def)

lemma audio_ok_busy:
  "audio_ok s \<Longrightarrow> audioQueue s = a # q \<Longrightarrow>
   isPlaying s \<and> currentAudio s = Some a \<and> audioPlayer s = Some (seg_url a)"
  by (simp add: audio_ok_def)

lemma finished_segment:
  assumes "audio_ok s"
    and "s1 = s\<lparr>logs := l, audioQueue := tl (audioQueue s), currentAudio := None, isPlaying := False\<rparr>"
  shows "audio_ok (playNextAudio s1) \<and> waiting (playNextAudio s1) = waiting s
    \<and> protocol (playNextAudio s1) = protocol s \<and> hostname (playNextAudio s1) = hostname s"
proof (cases "audioQueue s")
  case Nil
  with assms audio_ok_idle[OF assms(1) Nil] show ?thesis
    by (simp add: playNextAudio_idle audio_ok_def waiting_def)
next
  case (Cons a q)
  note busy = audio_ok_busy[OF assms(1) Cons]
  show ?thesis
  proof (cases q)
    case Nil
    with Cons assms busy show ?thesis
      by (simp add: playNextAudio_idle audio_ok_def waiting_def)
  next
    case (Cons b q')
    with \<open>audioQueue s = a # q\<close> assms(2) busy
    have "playNextAudio s1 =
       s1\<lparr>isPlaying := True, currentAudio := Some b, audioProgress := ProgressZero,
          audioPlayer := Some (seg_url b), effects := effects s1 @ [Play (seg_url b)]\<rparr>"
      by (intro playNextAudio_start[where q = q' and x = "seg_url a"]) simp_all
    with Cons \<open>audioQueue s = a # q\<close> assms(2) show ?thesis
      by (simp add: audio_ok_def waiting_def)
  qed
qed

lemma finished_audio:
  assumes "audio_ok s"
  shows "audio_ok (onAudioEnded s) \<and> waiting (onAudioEnded s) = waiting s
    \<and> protocol (onAudioEnded s) = protocol s \<and> hostname (onAudioEnded s) = hostname s"
    and "audio_ok (onAudioError m s) \<and> waiting (onAudioError m s) = waiting s
    \<and> protocol (onAudioError m s) = protocol s \<and> hostname (onAudioError m s) = hostname s"
  unfolding onAudioEnded_def onAudioError_def addToLog_def
  by (rule finished_segment[OF assms]; simp)+

lemma enqueue_segment:
  assumes "audio_ok s"
    and "s1 = s\<lparr>logs := l, audioQueue := audioQueue s @ [x]\<rparr>"
  shows "audio_ok (playNextAudio s1) \<and> waiting (playNextAudio s1) = waiting s @ [seg_url x]
    \<and> protocol (playNextAudio s1) = protocol s \<and> hostname (playNextAudio s1) = hostname s
    \<and> (isPlaying s1 \<longrightarrow> playNextAudio s1 = s1) \<and> isPlaying s1 = (currentAudio s1 \<noteq> None)"
proof (cases "audioQueue s")
  case Nil
  from audio_ok_idle[OF assms(1) Nil] obtain y where
    idle: "\<not> isPlaying s" "currentAudio s = None" "audioPlayer s = Some y" by blast
  with Nil assms(2)
  have "playNextAudio s1 =
       s1\<lparr>isPlaying := True, currentAudio := Some x, audioProgress := ProgressZero,
          audioPlayer := Some (seg_url x), effects := effects s1 @ [Play (seg_url x)]\<rparr>"
    by (intro playNextAudio_start[where q = "[]" and x = y]) simp_all
  with Nil assms(2) idle show ?thesis
    by (simp add: audio_ok_def waiting_def)
next
  case (Cons a q)
  note busy = audio_ok_busy[OF assms(1) Cons]
  with assms(2) have "playNextAudio s1 = s1" by (simp add: playNextAudio_busy)
  with Cons assms(2) busy show ?thesis
    by (simp add: audio_ok_def waiting_def)
qed

lemma enqueue_llm:
  assumes "audio_ok s" "u \<noteq> []"
  shows "audio_ok (playAudioResponse u s) \<and>
     waiting (playAudioResponse u s) = waiting s @ [protocol s @ ''//'' @ hostname s @ '':8000'' @ u]
     \<and> protocol (playAudioResponse u s) = protocol s \<and> hostname (playAudioResponse u s) = hostname s"
proof -
  define s1 where "s1 = s\<lparr>logs := logs s, audioQueue := audioQueue s @
     [\<lparr>seg_url = fullUrl s u, seg_text = voiceReplyText\<rparr>]\<rparr>"
  from enqueue_segment[OF assms(1) s1_def]
  have *: "audio_ok (playNextAudio s1)" "waiting (playNextAudio s1) = waiting s @ [fullUrl s u]"
    "protocol (playNextAudio s1) = protocol s" "hostname (playNextAudio s1) = hostname s"
    "isPlaying s1 \<longrightarrow> playNextAudio s1 = s1" "isPlaying s1 = (currentAudio s1 \<noteq> None)"
    by simp_all
  have "playAudioResponse u s = (if currentAudio s1 = None then playNextAudio s1 else s1)"
    by (simp add: playAudioResponse_def s1_def Let_def)
  with * have "playAudioResponse u s = playNextAudio s1" by auto
  with * show ?thesis by (simp add: fullUrl_def)
qed

lemma enqueue_tts:
  assumes "audio_ok s" "u \<noteq> []"
  shows "\<exists>s'. handleTTSSentenceComplete (Some t) (Some u) s = Inr s' \<and> audio_ok s' \<and>
     waiting s' = waiting s @ [protocol s @ ''//'' @ hostname s @ '':8000'' @ u]
     \<and> protocol s' = protocol s \<and> hostname s' = hostname s"
proof -
  define s1 where "s1 = s\<lparr>logs := logs s @ [LogTtsAudio t], audioQueue := audioQueue s @
     [\<lparr>seg_url = fullUrl s u, seg_text = t\<rparr>]\<rparr>"
  from enqueue_segment[OF assms(1) s1_def]
  have *: "audio_ok (playNextAudio s1)" "waiting (playNextAudio s1) = waiting s @ [fullUrl s u]"
    "protocol (playNextAudio s1) = protocol s" "hostname (playNextAudio s1) = hostname s"
    "isPlaying s1 \<longrightarrow> playNextAudio s1 = s1" "isPlaying s1 = (currentAudio s1 \<noteq> None)"
    by simp_all
  have "handleTTSSentenceComplete (Some t) (Some u) s =
      Inr (if \<not> isPlaying s1 then playNextAudio s1 else s1)"
    using assms(2) by (simp add: handleTTSSentenceComplete_def s1_def Let_def addToLog_def)
  with * have "handleTTSSentenceComplete (Some t) (Some u) s = Inr (playNextAudio s1)" by auto
  with * show ?thesis by (simp add: fullUrl_def)
qed

lemma quiet_step:
  assumes "audio_ok s" "\<not> audio_event e"
  shows "audio_ok (step s e) \<and>
         waiting (step s e) = waiting s @ map seg_url (enqueued (protocol s) (hostname s) e) \<and>
         protocol (step s e) = protocol s \<and> hostname (step s e) = hostname s"
proof -
  from assms(2) have eq: "audio_part (step s e) = audio_part s" by (rule step_audio_part)
  from eq have "protocol (step s e) = protocol s" "hostname (step s e) = hostname s"
    by (simp_all add: audio_part_def)
  with assms audio_ok_cong[OF eq] waiting_cong[OF eq] enqueued_non_audio[OF assms(2)]
  show ?thesis by simp
qed

lemma llm_step:
  assumes "audio_ok s"
  shows "audio_ok (handleLLMResponse a s) \<and>
         waiting (handleLLMResponse a s) =
           waiting s @ map seg_url (enqueued (protocol s) (hostname s) (SocketMessage (Decoded (LlmResponse a)))) \<and>
         protocol (handleLLMResponse a s) = protocol s \<and> hostname (handleLLMResponse a s) = hostname s"
proof (cases a)
  case None
  with assms show ?thesis by (simp add: handleLLMResponse_def)
next
  case (Some u)
  show ?thesis
  proof (cases "u = []")
    case True
    with Some assms show ?thesis by (simp add: handleLLMResponse_def)
  next
    case False
    with Some enqueue_llm[OF assms, of u] show ?thesis by (simp add: handleLLMResponse_def)
  qed
qed

lemma tts_step:
  fixes s :: state and t a :: "string option"
  assumes "audio_ok s"
  defines "s' \<equiv> handleServerMessage (Decoded (TtsSentenceComplete t a)) s"
  shows "audio_ok s' \<and>
         waiting s' =
           waiting s @ map seg_url (enqueued (protocol s) (hostname s) (SocketMessage (Decoded (TtsSentenceComplete t a)))) \<and>
         protocol s' = protocol s \<and> hostname s' = hostname s"
proof (cases a)
  case None
  with assms show ?thesis
    by (cases t) (simp_all add: handleServerMessage_def handleTTSSentenceComplete_def)
next
  case (Some u)
  show ?thesis
  proof (cases "u = []")
    case True
    with Some assms show ?thesis
      by (cases t) (simp_all add: handleServerMessage_def handleTTSSentenceComplete_def)
  next
    case False
    show ?thesis
    proof (cases t)
      case None
      with Some False assms show ?thesis
        by (simp add: handleServerMessage_def handleTTSSentenceComplete_def addToLog_def
            audio_ok_def waiting_def split: list.splits)
    next
      case (Some x)
      from enqueue_tts[OF assms(1) False, of x] obtain s2 where
        "handleTTSSentenceComplete (Some x) (Some u) s = Inr s2" "audio_ok s2"
        "waiting s2 = waiting s @ [protocol s @ ''//'' @ hostname s @ '':8000'' @ u]"
        "protocol s2 = protocol s" "hostname s2 = hostname s" by blast
      with Some \<open>a = Some u\<close> False show ?thesis
        by (simp add: s'_def handleServerMessage_def)
    qed
  qed
qed

lemma step_audio:
  assumes "audio_ok s"
  shows "audio_ok (step s e) \<and>
         waiting (step s e) = waiting s @ map seg_url (enqueued (protocol s) (hostname s) e) \<and>
         protocol (step s e) = protocol s \<and> hostname (step s e) = hostname s"
proof (cases e rule: audio_event.cases)
  case 1
  with finished_audio(1)[OF assms] show ?thesis by simp
next
  case (2 m)
  with finished_audio(2)[OF assms, of m] show ?thesis by simp
next
  case (3 a)
  with llm_step[OF assms, of a] show ?thesis by (simp add: handleServerMessage_def)
next
  case (4 t a)
  with tts_step[OF assms, of t a] show ?thesis by simp
qed (use quiet_step[OF assms, of e] in simp)+

lemma run_Nil [simp]: "run s [] = s"
  by (simp add: run_def)

lemma run_Cons [simp]: "run s (e # evs) = run (step s e) evs"
  by (simp add: run_def)

lemma run_snoc: "run s (evs @ [e]) = step (run s evs) e"
  by (simp add: run_def)

lemma run_audio:
  "audio_ok s \<Longrightarrow>
   audio_ok (run s evs) \<and>
   waiting (run s evs) = waiting s @ map seg_url (arrivals (protocol s) (hostname s) evs) \<and>
   protocol (run s evs) = protocol s \<and> hostname (run s evs) = hostname s"
proof (induction evs arbitrary: s)
  case Nil
  then show ?case by (simp add: arrivals_def)
next
  case (Cons e evs)
  from step_audio[OF Cons.prems, of e] Cons.IH[of "step s e"]
  show ?case by (simp add: arrivals_def)
qed

lemma mounted_audio:
  "audio_ok (mounted p h c)" "waiting (mounted p h c) = []"
  "protocol (mounted p h c) = p" "hostname (mounted p h c) = h"
  by (simp_all add: mounted_def initial_refs_def addToLog_def audio_ok_def waiting_def)

lemma no_preemption:
  assumes "isPlaying s" "e \<noteq> AudioEnded" "\<forall>m. e \<noteq> AudioError m"
  shows "played (effects (step s e)) = played (effects s)"
proof (cases "audio_event e")
  case False
  from step_audio_part[OF this, of s] show ?thesis by (simp add: audio_part_def)
next
  case True
  from True assms(2,3) show ?thesis
  proof (cases e rule: audio_event.cases)
    case (3 a)
    with assms(1) show ?thesis
      by (auto simp add: handleServerMessage_def handleLLMResponse_def playAudioResponse_def
          playNextAudio_busy Let_def split: option.splits)
  next
    case (4 t a)
    with assms(1) show ?thesis
      by (auto simp add: handleServerMessage_def handleTTSSentenceComplete_def addToLog_def
          playNextAudio_busy Let_def split: option.splits)
  qed simp_all
qed

subsection \<open>Reconnection: lemmas\<close>

lemma scheduleReconnect_part:
  "reconnect_part (scheduleReconnect s) =
     (Suc (reconnectCount s), reconnectDelays (effects s) @ [reconnectDelay * Suc (reconnectCount s)])"
  by (simp add: reconnect_part_def scheduleReconnect_def Let_def tool_defs)

lemma handleConnectionError_part:
  "reconnect_part (handleConnectionError err s) =
     (if reconnectCount s < maxReconnectAttempts
      then (Suc (reconnectCount s), reconnectDelays (effects s) @ [reconnectDelay * Suc (reconnectCount s)])
      else reconnect_part s)"
  by (simp add: handleConnectionError_def Let_def scheduleReconnect_part)
     (simp add: reconnect_part_def tool_defs)

lemma stopHeartbeat_part: "reconnect_part (stopHeartbeat s) = reconnect_part s"
  by (simp add: reconnect_part_def stopHeartbeat_def emit_def)

lemma handleDisconnect_part:
  "reconnect_part (handleDisconnect code reason s) =
     (if code \<noteq> 1000 \<and> reconnectCount s < maxReconnectAttempts
      then (Suc (reconnectCount s), reconnectDelays (effects s) @ [reconnectDelay * Suc (reconnectCount s)])
      else reconnect_part s)"
  using stopHeartbeat_part[of s]
  by (simp add: handleDisconnect_def Let_def scheduleReconnect_part)
     (simp add: reconnect_part_def tool_defs)

lemma reconnect_part_cong:
  "reconnectCount s' = reconnectCount s \<Longrightarrow> effects s' = effects s \<Longrightarrow>
   reconnect_part s' = reconnect_part s"
  by (simp add: reconnect_part_def)

lemma playNextAudio_part: "reconnect_part (playNextAudio s) = reconnect_part s"
  by (simp add: reconnect_part_def playNextAudio_def emit_def Let_def split: list.splits option.splits)

lemma audio_handlers_part:
  "reconnect_part (onAudioEnded s) = reconnect_part s"
  "reconnect_part (onAudioError m s) = reconnect_part s"
  "reconnect_part (playAudioResponse u s) = reconnect_part s"
  "reconnect_part (onAudioCanPlay s) = reconnect_part s"
  unfolding onAudioEnded_def onAudioError_def playAudioResponse_def Let_def onAudioCanPlay_def
    startProgressUpdate_def
  by (simp_all add: playNextAudio_part) (simp_all add: reconnect_part_def tool_defs)

lemma handleTTS_part:
  "handleTTSSentenceComplete t a s = Inr s' \<Longrightarrow> reconnect_part s' = reconnect_part s"
  unfolding handleTTSSentenceComplete_def Let_def
  by (auto simp add: playNextAudio_part split: option.splits if_splits)
     (simp_all add: reconnect_part_def tool_defs)

lemma handleServerMessage_part: "reconnect_part (handleServerMessage d s) = reconnect_part s"
proof (cases d)
  case (Decoded m)
  show ?thesis
  proof (cases m)
    case (TtsSentenceComplete t a)
    show ?thesis
    proof (cases "handleTTSSentenceComplete t a s")
      case (Inl e)
      with Decoded TtsSentenceComplete show ?thesis
        by (simp add: handleServerMessage_def reconnect_part_def addToLog_def)
    next
      case (Inr s')
      with Decoded TtsSentenceComplete handleTTS_part[OF Inr] show ?thesis
        by (simp add: handleServerMessage_def)
    qed
  next
    case (LlmResponse a)
    with Decoded show ?thesis
      by (simp add: handleServerMessage_def handleLLMResponse_def audio_handlers_part
          split: option.splits)
  qed (use Decoded in \<open>simp_all add: handleServerMessage_def tool_defs reconnect_part_def
        handleRecognitionResult_def handleLLMStreamChunk_def handleError_def appendToLastMessage_def\<close>)
qed (simp_all add: handleServerMessage_def tool_defs reconnect_part_def)

lemma step_reconnect: "e \<noteq> SocketOpened \<Longrightarrow> reconnect_step s (step s e)"
proof (cases e)
  case (ClickConnect ok)
  then show ?thesis
    by (simp add: reconnect_step_def connectWebSocket_def connectWebSocket_open_def Let_def
        handleConnectionError_part split: option.splits)
       (simp add: reconnect_part_def tool_defs)
next
  case (ReconnectTimerFired ok)
  then show ?thesis
    by (simp add: reconnect_step_def connectWebSocket_def connectWebSocket_open_def Let_def
        handleConnectionError_part split: option.splits)
       (simp add: reconnect_part_def tool_defs)
next
  case (GraceElapsed ok)
  then show ?thesis
    by (simp add: reconnect_step_def connectWebSocket_resume_def connectWebSocket_open_def Let_def
        handleConnectionError_part)
       (simp add: reconnect_part_def tool_defs)
next
  case ConnectionTimeoutFired
  then show ?thesis
    by (simp add: reconnect_step_def connectionTimeout_def handleConnectionError_part
        split: option.splits)
       (simp add: reconnect_part_def tool_defs)
next
  case (SocketClosed code reason)
  then show ?thesis by (simp add: reconnect_step_def handleDisconnect_part)
next
  case SocketError
  then show ?thesis by (simp add: reconnect_step_def handleConnectionError_part)
next
  case (SocketMessage d)
  then show ?thesis by (simp add: reconnect_step_def handleServerMessage_part)
next
  case AudioEnded
  then show ?thesis by (simp add: reconnect_step_def audio_handlers_part)
next
  case (AudioError m)
  then show ?thesis by (simp add: reconnect_step_def audio_handlers_part)
next
  case AudioCanPlay
  then show ?thesis by (simp add: reconnect_step_def audio_handlers_part)
qed (simp_all add: reconnect_step_def reconnect_part_def conn_defs tool_defs
      split: option.splits fetched.splits)

lemma step_count_le:
  "reconnectCount s \<le> maxReconnectAttempts \<Longrightarrow> reconnectCount (step s e) \<le> maxReconnectAttempts"
proof (cases "e = SocketOpened")
  case True
  then show ?thesis by (simp add: onopen_def startHeartbeat_def stopHeartbeat_def
        fetchAvailableModels_def tool_defs)
next
  case False
  assume "reconnectCount s \<le> maxReconnectAttempts"
  with step_reconnect[OF False, of s] show ?thesis
    by (auto simp add: reconnect_step_def reconnect_part_def)
qed

lemma run_count_le:
  "reconnectCount s \<le> maxReconnectAttempts \<Longrightarrow> reconnectCount (run s evs) \<le> maxReconnectAttempts"
  by (induction evs arbitrary: s) (simp_all add: step_count_le)

lemma run_reconnect:
  "SocketOpened \<notin> set evs \<Longrightarrow> reconnectCount s \<le> maxReconnectAttempts \<Longrightarrow>
   reconnectCount s \<le> reconnectCount (run s evs) \<and>
   reconnectDelays (effects (run s evs)) =
     reconnectDelays (effects s) @
       map (\<lambda>n. reconnectDelay * n) [Suc (reconnectCount s) ..< Suc (reconnectCount (run s evs))]"
proof (induction evs arbitrary: s)
  case Nil
  then show ?case by simp
next
  case (Cons e evs)
  from Cons.prems have ne: "e \<noteq> SocketOpened" and rest: "SocketOpened \<notin> set evs" by auto
  from Cons.prems(2) have le: "reconnectCount (step s e) \<le> maxReconnectAttempts"
    by (rule step_count_le)
  note IH = Cons.IH[OF rest le]
  from step_reconnect[OF ne, of s]
  consider "reconnect_part (step s e) = reconnect_part s"
    | "reconnect_part (step s e) =
         (Suc (reconnectCount s), reconnectDelays (effects s) @ [reconnectDelay * Suc (reconnectCount s)])"
    by (auto simp add: reconnect_step_def)
  then show ?case
  proof cases
    case 1
    with IH show ?thesis by (simp del: upt_Suc add: reconnect_part_def)
  next
    case 2
    then have c: "reconnectCount (step s e) = Suc (reconnectCount s)"
      and d: "reconnectDelays (effects (step s e)) =
               reconnectDelays (effects s) @ [reconnectDelay * Suc (reconnectCount s)]"
      by (simp_all add: reconnect_part_def)
    from IH c have lt: "Suc (reconnectCount s) < Suc (reconnectCount (run (step s e) evs))" by simp
    from IH c d show ?thesis by (simp del: upt_Suc add: upt_conv_Cons[OF lt])
  qed
qed

lemma sentFrames_append [simp]: "sentFrames (xs @ ys) = sentFrames xs @ sentFrames ys"
  by (induction xs rule: sentFrames.induct) simp_all

lemma markers_playNextAudio: "markers_agree s \<Longrightarrow> markers_agree (playNextAudio s)"
  by (simp add: markers_agree_def playNextAudio_def emit_def Let_def split: list.splits option.splits)

lemma markers_finished:
  "markers_agree (onAudioEnded s)" "markers_agree (onAudioError m s)"
  unfolding onAudioEnded_def onAudioError_def
  by (rule markers_playNextAudio, simp add: markers_agree_def)+

lemma markers_playAudioResponse:
  assumes "markers_agree s"
  shows "markers_agree (playAudioResponse u s)"
    and "playAudioResponse u s =
      (let s1 = s\<lparr>audioQueue := audioQueue s @ [\<lparr>seg_url = fullUrl s u, seg_text = voiceReplyText\<rparr>]\<rparr>
       in if \<not> isPlaying s1 then playNextAudio s1 else s1)"
proof -
  let ?s1 = "s\<lparr>audioQueue := audioQueue s @ [\<lparr>seg_url = fullUrl s u, seg_text = voiceReplyText\<rparr>]\<rparr>"
  from assms have a: "markers_agree ?s1" by (simp add: markers_agree_def)
  from a show "playAudioResponse u s =
      (let s1 = ?s1 in if \<not> isPlaying s1 then playNextAudio s1 else s1)"
    by (simp add: playAudioResponse_def Let_def markers_agree_def)
  from a markers_playNextAudio[OF a] show "markers_agree (playAudioResponse u s)"
    by (simp add: playAudioResponse_def Let_def)
qed

lemma markers_tts:
  assumes "markers_agree s"
  shows "handleTTSSentenceComplete t a s = Inr s' \<Longrightarrow> markers_agree s'"
    and "handleTTSSentenceComplete (Some x) (Some (v # u)) s =
      (let s1 = addToLog (LogTtsAudio x) s;
           s2 = s1\<lparr>audioQueue := audioQueue s1 @ [\<lparr>seg_url = fullUrl s (v # u), seg_text = x\<rparr>]\<rparr>
       in Inr (if currentAudio s2 = None then playNextAudio s2 else s2))"
proof -
  let ?s2 = "\<lambda>x u. (addToLog (LogTtsAudio x) s)\<lparr>audioQueue := audioQueue (addToLog (LogTtsAudio x) s) @
      [\<lparr>seg_url = fullUrl s u, seg_text = x\<rparr>]\<rparr>"
  from assms have a: "markers_agree (?s2 x u)" for x u by (simp add: markers_agree_def addToLog_def)
  from a[of x "v # u"] show "handleTTSSentenceComplete (Some x) (Some (v # u)) s =
      (let s1 = addToLog (LogTtsAudio x) s;
           s2 = s1\<lparr>audioQueue := audioQueue s1 @ [\<lparr>seg_url = fullUrl s (v # u), seg_text = x\<rparr>]\<rparr>
       in Inr (if currentAudio s2 = None then playNextAudio s2 else s2))"
    by (simp add: handleTTSSentenceComplete_def Let_def markers_agree_def)
  assume r: "handleTTSSentenceComplete t a s = Inr s'"
  show "markers_agree s'"
  proof (cases "truthy a")
    case False
    with r assms show ?thesis
      by (auto simp add: truthy_def handleTTSSentenceComplete_def split: option.splits if_splits)
  next
    case True
    then obtain w where w: "a = Some w" "w \<noteq> []" by (auto simp add: truthy_def split: option.splits)
    with r obtain y where y: "t = Some y"
      by (cases t) (simp_all add: handleTTSSentenceComplete_def)
    from r w y have "s' = (if \<not> isPlaying (?s2 y w) then playNextAudio (?s2 y w) else ?s2 y w)"
      by (simp add: handleTTSSentenceComplete_def Let_def)
    with a[of y w] markers_playNextAudio[OF a[of y w]] show ?thesis by simp
  qed
qed

lemmas eval_defs = conn_defs audio_defs msg_defs tool_defs mounted_def initial_refs_def Let_def
  fullUrl_def ws_close_def truthy_def js_string_def maxReconnectAttempts_def reconnectDelay_def

lemma normal_close_never_reconnects:
  "reconnectDelays (effects (handleDisconnect 1000 reason s)) = reconnectDelays (effects s) \<and>
   reconnectCount (handleDisconnect 1000 reason s) = reconnectCount s"
  using handleDisconnect_part[of 1000 reason s] by (simp add: reconnect_part_def)

lemma disconnectWebSocket_effects:
  "effects (disconnectWebSocket s) = effects s @ (case socket s of None \<Rightarrow> [] | Some _ \<Rightarrow> [SocketClose])"
  by (simp add: disconnectWebSocket_def emit_def split: option.splits)

section \<open>The claims\<close>

subsection \<open>Audio playback queue\<close>

text \<open>
  Claim C1. From the mounted component, after any list of events (enqueues by
  \<^verbatim>\<open>tts_sentence_complete\<close> and \<^verbatim>\<open>llm_response\<close> messages, completions, errors and every
  other event, in any order): the URLs given to the audio element so far, followed by the
  URLs waiting behind the head of the queue, are the segments that arrived, in their order
  of arrival, so segments begin playback in FIFO order and none is skipped or moved; the
  segment marked as current is the head of the queue, and there is one exactly when the queue
  is not empty; and while a segment plays, no event but its end or its error makes the audio
  element begin another one.
\<close>

theorem playback_fifo_single_target:
  "audio_ok (run (mounted p h c) evs) \<and>
   played (effects (run (mounted p h c) evs)) @ map seg_url (tl (audioQueue (run (mounted p h c) evs)))
     = map seg_url (arrivals p h evs) \<and>
   (\<forall>e. isPlaying (run (mounted p h c) evs) \<and> e \<noteq> AudioEnded \<and> (\<forall>m. e \<noteq> AudioError m) \<longrightarrow>
        played (effects (step (run (mounted p h c) evs) e)) = played (effects (run (mounted p h c) evs)))"
proof -
  have "waiting (run (mounted p h c) evs) = map seg_url (arrivals p h evs)"
    using run_audio[OF mounted_audio(1), of p h c evs] by (simp add: mounted_audio)
  with run_audio[OF mounted_audio(1), of p h c evs] no_preemption
  show ?thesis by (simp add: waiting_def)
qed

theorem playback_fifo_single_target_witness:
  "played (effects (run (mounted ''http:'' ''localhost'' [])
      [SocketMessage (Decoded (TtsSentenceComplete (Some ''a'') (Some ''/1.mp3''))),
       SocketMessage (Decoded (TtsSentenceComplete (Some ''b'') (Some ''/2.mp3''))),
       SocketMessage (Decoded (LlmResponse (Some ''/3.mp3''))),
       AudioEnded])) =
     [''http://localhost:8000/1.mp3'', ''http://localhost:8000/2.mp3''] \<and>
   map seg_url (audioQueue (run (mounted ''http:'' ''localhost'' [])
      [SocketMessage (Decoded (TtsSentenceComplete (Some ''a'') (Some ''/1.mp3''))),
       SocketMessage (Decoded (TtsSentenceComplete (Some ''b'') (Some ''/2.mp3''))),
       SocketMessage (Decoded (LlmResponse (Some ''/3.mp3''))),
       AudioEnded])) =
     [''http://localhost:8000/2.mp3'', ''http://localhost:8000/3.mp3''] \<and>
   isPlaying (run (mounted ''http:'' ''localhost'' [])
      [SocketMessage (Decoded (TtsSentenceComplete (Some ''a'') (Some ''/1.mp3''))),
       SocketMessage (Decoded (TtsSentenceComplete (Some ''b'') (Some ''/2.mp3''))),
       SocketMessage (Decoded (LlmResponse (Some ''/3.mp3''))),
       AudioEnded]) \<and>
   played (effects (step (run (mounted ''http:'' ''localhost'' [])
      [SocketMessage (Decoded (TtsSentenceComplete (Some ''a'') (Some ''/1.mp3''))),
       SocketMessage (Decoded (TtsSentenceComplete (Some ''b'') (Some ''/2.mp3''))),
       SocketMessage (Decoded (LlmResponse (Some ''/3.mp3''))),
       AudioEnded])
      (SocketMessage (Decoded (LlmResponse (Some ''/4.mp3'')))))) =
     [''http://localhost:8000/1.mp3'', ''http://localhost:8000/2.mp3'']"
  using playback_fifo_single_target[of "''http:''" "''localhost''" "[]"
      "[SocketMessage (Decoded (TtsSentenceComplete (Some ''a'') (Some ''/1.mp3''))),
       SocketMessage (Decoded (TtsSentenceComplete (Some ''b'') (Some ''/2.mp3''))),
       SocketMessage (Decoded (LlmResponse (Some ''/3.mp3''))),
       AudioEnded]"]
  by (simp add: eval_defs)

text \<open>
  Claim C6. When the head of the queue is the playing segment and it ends or fails, the
  handler first takes the head off the queue and clears both markers (the state \<open>mid\<close>),
  and then calls \<^verbatim>\<open>playNextAudio\<close> on that state. At the end of the handler the queue is the
  old queue without its head, one shorter; with nothing left nothing plays, and otherwise the
  new head is the current segment and, with the audio element bound, the one call added to the
  effects is the \<^verbatim>\<open>play()\<close> of the new head.
\<close>

theorem finished_segment_advances:
  assumes "audioQueue s = a # rest" and "currentAudio s = Some a" and "isPlaying s"
    and "s' = onAudioEnded s \<or> s' = onAudioError m s"
  shows "(\<exists>mid. s' = playNextAudio mid \<and> audioQueue mid = rest \<and> currentAudio mid = None \<and>
            \<not> isPlaying mid \<and> effects mid = effects s \<and> audioPlayer mid = audioPlayer s) \<and>
         audioQueue s' = rest \<and>
         length (audioQueue s') + 1 = length (audioQueue s) \<and>
         (case rest of
            [] \<Rightarrow> currentAudio s' = None \<and> \<not> isPlaying s' \<and> effects s' = effects s
          | b # _ \<Rightarrow> currentAudio s' = Some b \<and> isPlaying s' \<and>
              (case audioPlayer s of
                 None \<Rightarrow> effects s' = effects s
               | Some _ \<Rightarrow> audioPlayer s' = Some (seg_url b) \<and> effects s' = effects s @ [Play (seg_url b)]))"
proof -
  from assms(4) obtain l where s': "s' = playNextAudio
       (s\<lparr>logs := logs s @ [l], audioQueue := tl (audioQueue s), currentAudio := None, isPlaying := False\<rparr>)"
    by (auto simp add: onAudioEnded_def onAudioError_def addToLog_def)
  let ?mid = "s\<lparr>logs := logs s @ [l], audioQueue := tl (audioQueue s), currentAudio := None, isPlaying := False\<rparr>"
  from assms(1) have mid: "audioQueue ?mid = rest" "currentAudio ?mid = None" "\<not> isPlaying ?mid"
    "effects ?mid = effects s" "audioPlayer ?mid = audioPlayer s" by simp_all
  with s' have 1: "\<exists>mid. s' = playNextAudio mid \<and> audioQueue mid = rest \<and> currentAudio mid = None \<and>
            \<not> isPlaying mid \<and> effects mid = effects s \<and> audioPlayer mid = audioPlayer s" by blast
  from s' assms(1) have 2: "audioQueue s' = rest"
    by (simp add: playNextAudio_def emit_def Let_def split: list.splits option.splits)
  from s' assms(1) have 3: "(case rest of
            [] \<Rightarrow> currentAudio s' = None \<and> \<not> isPlaying s' \<and> effects s' = effects s
          | b # _ \<Rightarrow> currentAudio s' = Some b \<and> isPlaying s' \<and>
              (case audioPlayer s of
                 None \<Rightarrow> effects s' = effects s
               | Some _ \<Rightarrow> audioPlayer s' = Some (seg_url b) \<and> effects s' = effects s @ [Play (seg_url b)]))"
    by (simp add: playNextAudio_def emit_def Let_def split: list.splits option.splits)
  from 1 2 3 assms(1) show ?thesis by simp
qed

theorem finished_segment_advances_witness:
  "audioQueue (run (mounted ''http:'' ''localhost'' [])
      [SocketMessage (Decoded (TtsSentenceComplete (Some ''a'') (Some ''/1.mp3''))),
       SocketMessage (Decoded (LlmResponse (Some ''/2.mp3'')))]) =
     [\<lparr>seg_url = ''http://localhost:8000/1.mp3'', seg_text = ''a''\<rparr>,
      \<lparr>seg_url = ''http://localhost:8000/2.mp3'', seg_text = voiceReplyText\<rparr>] \<and>
   currentAudio (run (mounted ''http:'' ''localhost'' [])
      [SocketMessage (Decoded (TtsSentenceComplete (Some ''a'') (Some ''/1.mp3''))),
       SocketMessage (Decoded (LlmResponse (Some ''/2.mp3'')))]) =
     Some \<lparr>seg_url = ''http://localhost:8000/1.mp3'', seg_text = ''a''\<rparr> \<and>
   isPlaying (run (mounted ''http:'' ''localhost'' [])
      [SocketMessage (Decoded (TtsSentenceComplete (Some ''a'') (Some ''/1.mp3''))),
       SocketMessage (Decoded (LlmResponse (Some ''/2.mp3'')))]) \<and>
   audioQueue (onAudioEnded (run (mounted ''http:'' ''localhost'' [])
      [SocketMessage (Decoded (TtsSentenceComplete (Some ''a'') (Some ''/1.mp3''))),
       SocketMessage (Decoded (LlmResponse (Some ''/2.mp3'')))])) =
     [\<lparr>seg_url = ''http://localhost:8000/2.mp3'', seg_text = voiceReplyText\<rparr>] \<and>
   currentAudio (onAudioEnded (run (mounted ''http:'' ''localhost'' [])
      [SocketMessage (Decoded (TtsSentenceComplete (Some ''a'') (Some ''/1.mp3''))),
       SocketMessage (Decoded (LlmResponse (Some ''/2.mp3'')))])) =
     Some \<lparr>seg_url = ''http://localhost:8000/2.mp3'', seg_text = voiceReplyText\<rparr> \<and>
   played (effects (onAudioEnded (run (mounted ''http:'' ''localhost'' [])
      [SocketMessage (Decoded (TtsSentenceComplete (Some ''a'') (Some ''/1.mp3''))),
       SocketMessage (Decoded (LlmResponse (Some ''/2.mp3'')))]))) =
     [''http://localhost:8000/1.mp3'', ''http://localhost:8000/2.mp3'']"
  using finished_segment_advances[of
      "run (mounted ''http:'' ''localhost'' [])
        [SocketMessage (Decoded (TtsSentenceComplete (Some ''a'') (Some ''/1.mp3''))),
         SocketMessage (Decoded (LlmResponse (Some ''/2.mp3'')))]"
      "\<lparr>seg_url = ''http://localhost:8000/1.mp3'', seg_text = ''a''\<rparr>"
      "[\<lparr>seg_url = ''http://localhost:8000/2.mp3'', seg_text = voiceReplyText\<rparr>]"
      "onAudioEnded (run (mounted ''http:'' ''localhost'' [])
        [SocketMessage (Decoded (TtsSentenceComplete (Some ''a'') (Some ''/1.mp3''))),
         SocketMessage (Decoded (LlmResponse (Some ''/2.mp3'')))])"
      None]
  by (simp add: eval_defs)

text \<open>
  Claim C8. In every state reached from the mounted component, \<^verbatim>\<open>isPlaying\<close> is true exactly
  when \<^verbatim>\<open>currentAudio\<close> is not null. From any state where the two agree, \<^verbatim>\<open>playNextAudio\<close>,
  \<^verbatim>\<open>onAudioEnded\<close>, \<^verbatim>\<open>onAudioError\<close> and both enqueue paths lead to a state where they agree,
  and each enqueue path computes the same result with the guard of the other path:
  \<^verbatim>\<open>playAudioResponse\<close> with \<^verbatim>\<open>!isPlaying\<close>, \<^verbatim>\<open>handleTTSSentenceComplete\<close> with
  \<^verbatim>\<open>!currentAudio\<close>.
\<close>

theorem markers_agree_invariant:
  "markers_agree (run (mounted p h c) evs) \<and>
   (markers_agree s \<longrightarrow>
      markers_agree (playNextAudio s) \<and>
      markers_agree (onAudioEnded s) \<and>
      markers_agree (onAudioError m s) \<and>
      markers_agree (playAudioResponse u s) \<and>
      (\<forall>s'. handleTTSSentenceComplete t a s = Inr s' \<longrightarrow> markers_agree s') \<and>
      playAudioResponse u s =
        (let s1 = s\<lparr>audioQueue := audioQueue s @ [\<lparr>seg_url = fullUrl s u, seg_text = voiceReplyText\<rparr>]\<rparr>
         in if \<not> isPlaying s1 then playNextAudio s1 else s1) \<and>
      handleTTSSentenceComplete (Some x) (Some (v # w)) s =
        (let s1 = addToLog (LogTtsAudio x) s;
             s2 = s1\<lparr>audioQueue := audioQueue s1 @ [\<lparr>seg_url = fullUrl s (v # w), seg_text = x\<rparr>]\<rparr>
         in Inr (if currentAudio s2 = None then playNextAudio s2 else s2)))"
proof -
  from run_audio[OF mounted_audio(1), of p h c evs]
  have "audio_ok (run (mounted p h c) evs)" by simp
  then have "markers_agree (run (mounted p h c) evs)"
    by (auto simp add: audio_ok_def markers_agree_def split: list.splits)
  with markers_playNextAudio markers_finished markers_playAudioResponse markers_tts
  show ?thesis by blast
qed

theorem markers_agree_invariant_witness:
  "markers_agree (run (mounted ''http:'' ''localhost'' [])
      [SocketMessage (Decoded (LlmResponse (Some ''/1.mp3''))), AudioError None]) \<and>
   markers_agree (mounted ''http:'' ''localhost'' []) \<and>
   markers_agree (playAudioResponse ''/1.mp3'' (mounted ''http:'' ''localhost'' [])) \<and>
   isPlaying (playAudioResponse ''/1.mp3'' (mounted ''http:'' ''localhost'' []))"
  using markers_agree_invariant[of "''http:''" "''localhost''" "[]"
      "[SocketMessage (Decoded (LlmResponse (Some ''/1.mp3''))), AudioError None]"
      "mounted ''http:'' ''localhost'' []" None "''/1.mp3''" None None "''a''" "CHR ''/''" "''1.mp3''"]
  by (simp add: eval_defs markers_agree_def)

text \<open>
  Claim C9. A \<^verbatim>\<open>tts_sentence_complete\<close> message whose \<^verbatim>\<open>audio_url\<close> is absent or empty changes
  nothing: the handler returns the state it was given (the queue, the log and every other
  field), whatever the text of the message, and so does the dispatch of the message.
\<close>

theorem tts_without_audio_dropped:
  "audio_url = None \<or> audio_url = Some [] \<Longrightarrow>
   handleTTSSentenceComplete txt audio_url s = Inr s \<and>
   handleServerMessage (Decoded (TtsSentenceComplete txt audio_url)) s = s \<and>
   step s (SocketMessage (Decoded (TtsSentenceComplete txt audio_url))) = s"
  by (auto simp add: handleTTSSentenceComplete_def handleServerMessage_def)

theorem tts_without_audio_dropped_witness:
  "step (mounted ''http:'' ''localhost'' [])
     (SocketMessage (Decoded (TtsSentenceComplete (Some ''hello'') (Some [])))) =
   mounted ''http:'' ''localhost'' []"
  using tts_without_audio_dropped[of "Some []" "Some ''hello''" "mounted ''http:'' ''localhost'' []"]
  by simp

subsection \<open>Connection\<close>

text \<open>
  A run where the second claim, as it is written, fails: the user connects, the socket opens,
  and a transport error arrives. The heartbeat timer is still held, no call has cleared it,
  and \<^verbatim>\<open>isConnected\<close> is still true.
\<close>

theorem transport_error_keeps_heartbeat:
  "heartbeatInterval
     (step (run (mounted ''http:'' ''localhost'' []) [ClickConnect True, ReadyStateChanged OPEN, SocketOpened])
        SocketError) \<and>
   isConnected
     (step (run (mounted ''http:'' ''localhost'' []) [ClickConnect True, ReadyStateChanged OPEN, SocketOpened])
        SocketError) \<and>
   \<not> List.member
     (effects (step (run (mounted ''http:'' ''localhost'' []) [ClickConnect True, ReadyStateChanged OPEN, SocketOpened])
        SocketError)) (ClearTimer HeartbeatTimer)"
  by (simp add: eval_defs)

text \<open>
  Claim C2, as the script has it. A transport error runs \<^verbatim>\<open>handleConnectionError\<close>, which is
  not the handler of a close. It logs the error, sets the status text to "connection failed"
  and the status class to \<^verbatim>\<open>disconnected\<close>, and, exactly when the counter is below 3, counts
  the attempt, logs it and sets a reconnect timer of 1000 ms times the new count. It changes
  nothing else: the heartbeat timer and \<^verbatim>\<open>isConnected\<close> stay as they are, and no other call
  leaves the component. A close, whatever its code, does stop the heartbeat (a held timer is
  cleared) and sets \<^verbatim>\<open>isConnected\<close> to false; an abnormal close counts and schedules by the
  same rule as the error handler.
\<close>

theorem transport_error_handling:
  "step s SocketError = handleConnectionError ErrorEvent s \<and>
   handleConnectionError err s =
     (if reconnectCount s < 3
      then s\<lparr>logs := logs s @
               [LogConnectionError err,
                LogReconnectIn (1000 * (reconnectCount s + 1)) (reconnectCount s + 1) 3],
             connectionStatusText := TextFailed,
             connectionStatusClass := ''disconnected'',
             reconnectCount := reconnectCount s + 1,
             effects := effects s @ [SetTimeout ReconnectTimer (1000 * (reconnectCount s + 1))]\<rparr>
      else s\<lparr>logs := logs s @ [LogConnectionError err],
             connectionStatusText := TextFailed,
             connectionStatusClass := ''disconnected''\<rparr>) \<and>
   heartbeatInterval (handleConnectionError err s) = heartbeatInterval s \<and>
   isConnected (handleConnectionError err s) = isConnected s \<and>
   connectionStatusText (handleConnectionError err s) = TextFailed \<and>
   connectionStatusClass (handleConnectionError err s) = ''disconnected'' \<and>
   logs (handleConnectionError err s) =
     logs s @ LogConnectionError err #
       (if reconnectCount s < 3
        then [LogReconnectIn (1000 * (reconnectCount s + 1)) (reconnectCount s + 1) 3] else []) \<and>
   reconnectCount (handleConnectionError err s) =
     (if reconnectCount s < 3 then reconnectCount s + 1 else reconnectCount s) \<and>
   effects (handleConnectionError err s) =
     effects s @
       (if reconnectCount s < 3 then [SetTimeout ReconnectTimer (1000 * (reconnectCount s + 1))] else []) \<and>
   \<not> heartbeatInterval (handleDisconnect code reason s) \<and>
   \<not> isConnected (handleDisconnect code reason s) \<and>
   effects (handleDisconnect code reason s) =
     effects s @
       (if heartbeatInterval s then [ClearTimer HeartbeatTimer] else []) @
       (if code \<noteq> 1000 \<and> reconnectCount s < 3
        then [SetTimeout ReconnectTimer (1000 * (reconnectCount s + 1))] else []) \<and>
   (code \<noteq> 1000 \<longrightarrow>
      reconnectCount (handleDisconnect code reason s) = reconnectCount (handleConnectionError err s) \<and>
      reconnectDelays (effects (handleDisconnect code reason s)) =
        reconnectDelays (effects (handleConnectionError err s)))"
proof -
  have whole: "handleConnectionError err s =
     (if reconnectCount s < 3
      then s\<lparr>logs := logs s @
               [LogConnectionError err,
                LogReconnectIn (1000 * (reconnectCount s + 1)) (reconnectCount s + 1) 3],
             connectionStatusText := TextFailed,
             connectionStatusClass := ''disconnected'',
             reconnectCount := reconnectCount s + 1,
             effects := effects s @ [SetTimeout ReconnectTimer (1000 * (reconnectCount s + 1))]\<rparr>
      else s\<lparr>logs := logs s @ [LogConnectionError err],
             connectionStatusText := TextFailed,
             connectionStatusClass := ''disconnected''\<rparr>)"
    by (simp add: handleConnectionError_def scheduleReconnect_def Let_def tool_defs
          maxReconnectAttempts_def reconnectDelay_def)
  have fields:
    "heartbeatInterval (handleConnectionError err s) = heartbeatInterval s"
    "isConnected (handleConnectionError err s) = isConnected s"
    "connectionStatusText (handleConnectionError err s) = TextFailed"
    "connectionStatusClass (handleConnectionError err s) = ''disconnected''"
    "logs (handleConnectionError err s) =
       logs s @ LogConnectionError err #
         (if reconnectCount s < 3
          then [LogReconnectIn (1000 * (reconnectCount s + 1)) (reconnectCount s + 1) 3] else [])"
    "reconnectCount (handleConnectionError err s) =
       (if reconnectCount s < 3 then reconnectCount s + 1 else reconnectCount s)"
    "effects (handleConnectionError err s) =
       effects s @
         (if reconnectCount s < 3 then [SetTimeout ReconnectTimer (1000 * (reconnectCount s + 1))] else [])"
    by (simp_all add: whole)
  have close:
    "\<not> heartbeatInterval (handleDisconnect code reason s)"
    "\<not> isConnected (handleDisconnect code reason s)"
    "effects (handleDisconnect code reason s) =
       effects s @
         (if heartbeatInterval s then [ClearTimer HeartbeatTimer] else []) @
         (if code \<noteq> 1000 \<and> reconnectCount s < 3
          then [SetTimeout ReconnectTimer (1000 * (reconnectCount s + 1))] else [])"
    by (simp_all add: handleDisconnect_def scheduleReconnect_def stopHeartbeat_def Let_def tool_defs
          maxReconnectAttempts_def reconnectDelay_def)
  have same: "reconnect_part (handleDisconnect code reason s) = reconnect_part (handleConnectionError err s)"
    if "code \<noteq> 1000"
    using that by (simp add: handleDisconnect_part handleConnectionError_part)
  have rule: "code \<noteq> 1000 \<longrightarrow>
      reconnectCount (handleDisconnect code reason s) = reconnectCount (handleConnectionError err s) \<and>
      reconnectDelays (effects (handleDisconnect code reason s)) =
        reconnectDelays (effects (handleConnectionError err s))"
    using same by (simp add: reconnect_part_def)
  have st: "step s SocketError = handleConnectionError ErrorEvent s" by simp
  from st whole fields close rule show ?thesis by (intro conjI)
qed

theorem transport_error_handling_witness:
  "effects (handleConnectionError ErrorEvent (mounted ''http:'' ''localhost'' [])) =
     [SetTimeout ReconnectTimer 1000] \<and>
   logs (handleConnectionError ErrorEvent (mounted ''http:'' ''localhost'' [])) =
     [LogPageLoaded, LogConnectionError ErrorEvent, LogReconnectIn 1000 1 3] \<and>
   reconnectDelays (effects (handleDisconnect 1006 [] (mounted ''http:'' ''localhost'' []))) = [1000] \<and>
   \<not> isConnected (handleDisconnect 1006 [] (mounted ''http:'' ''localhost'' []))"
  using transport_error_handling[of "mounted ''http:'' ''localhost'' []" ErrorEvent 1006 "[]"]
  by (simp add: eval_defs)

text \<open>
  Claim C3. In every state reached from the mounted component the reconnect counter is at
  most 3. The counter is 0 when the component is mounted and after every open. From a state
  with counter 0, through any events without an open, the reconnect timers set are those of
  the attempts 1 to k, where k is the counter reached and at most 3, and attempt N waits
  1000 ms times N.
\<close>

theorem reconnect_bounded_linear:
  "reconnectCount (run (mounted p h c) evs) \<le> 3 \<and>
   reconnectCount (mounted p h c) = 0 \<and>
   reconnectCount (step s SocketOpened) = 0 \<and>
   (reconnectCount s = 0 \<and> SocketOpened \<notin> set evs \<longrightarrow>
      reconnectCount (run s evs) \<le> 3 \<and>
      reconnectDelays (effects (run s evs)) =
        reconnectDelays (effects s) @ map (\<lambda>n. 1000 * n) [1 ..< Suc (reconnectCount (run s evs))])"
proof -
  have m: "reconnectCount (mounted p h c) = 0"
    by (simp add: mounted_def initial_refs_def addToLog_def)
  have o: "reconnectCount (step s SocketOpened) = 0"
    by (simp add: onopen_def startHeartbeat_def stopHeartbeat_def fetchAvailableModels_def tool_defs)
  from m run_count_le[of "mounted p h c" evs]
  have r: "reconnectCount (run (mounted p h c) evs) \<le> 3" by (simp add: maxReconnectAttempts_def)
  have "reconnectCount (run s evs) \<le> 3 \<and>
      reconnectDelays (effects (run s evs)) =
        reconnectDelays (effects s) @ map (\<lambda>n. 1000 * n) [1 ..< Suc (reconnectCount (run s evs))]"
    if "reconnectCount s = 0" "SocketOpened \<notin> set evs"
    using that run_reconnect[OF that(2), of s] run_count_le[of s evs]
    by (simp add: maxReconnectAttempts_def reconnectDelay_def)
  with m o r show ?thesis by blast
qed

theorem reconnect_bounded_linear_witness:
  "reconnectCount (mounted ''http:'' ''localhost'' []) = 0 \<and>
   SocketOpened \<notin> set [SocketClosed 1006 [], SocketClosed 1006 [], SocketClosed 1006 [], SocketClosed 1006 []] \<and>
   reconnectDelays (effects (run (mounted ''http:'' ''localhost'' [])
      [SocketClosed 1006 [], SocketClosed 1006 [], SocketClosed 1006 [], SocketClosed 1006 []])) =
     [1000, 2000, 3000] \<and>
   reconnectCount (run (mounted ''http:'' ''localhost'' [])
      [SocketClosed 1006 [], SocketClosed 1006 [], SocketClosed 1006 [], SocketClosed 1006 []]) = 3"
  using reconnect_bounded_linear[of "''http:''" "''localhost''" "[]"
      "[SocketClosed 1006 [], SocketClosed 1006 [], SocketClosed 1006 [], SocketClosed 1006 []]"
      "mounted ''http:'' ''localhost'' []"]
  by (simp add: eval_defs)

text \<open>
  Claim C4, at the input where the script departs from it. A close event with code 1000 sets
  no reconnect timer (lemma \<open>normal_close_never_reconnects\<close>), but \<^verbatim>\<open>disconnectWebSocket\<close>
  calls \<^verbatim>\<open>close()\<close> without a code (lemma \<open>disconnectWebSocket_effects\<close>). The close event
  that ends such a closing handshake carries the code 1005 when the answer of the server has no
  status code. In this run the user connects, the socket opens, the user disconnects and
  that close event arrives: the last call of the component is a reconnect timer of 1000 ms.
\<close>

theorem disconnect_then_close_1005_reconnects:
  "effects (run (mounted p h c)
      [ClickConnect True, ReadyStateChanged OPEN, SocketOpened, ClickDisconnect, SocketClosed 1005 []]) =
     [NewWebSocket ''ws://localhost:8000/ws/realtime-voice-chat'',
      SetTimeout ConnectTimeoutTimer 5000,
      ClearTimer ConnectTimeoutTimer,
      Fetch GetAvailableModels,
      SetInterval HeartbeatTimer 10000,
      SocketClose,
      ClearTimer HeartbeatTimer,
      SetTimeout ReconnectTimer 1000]"
  by (simp add: eval_defs)

text \<open>
  Claim C10. Every close event, whatever its code and reason, leaves no heartbeat timer held
  (a held one is cleared) and leaves \<^verbatim>\<open>isVoiceChatting\<close> and \<^verbatim>\<open>isSpeaking\<close> false.
\<close>

theorem close_ends_session:
  "\<not> heartbeatInterval (handleDisconnect code reason s) \<and>
   \<not> isVoiceChatting (handleDisconnect code reason s) \<and>
   \<not> isSpeaking (handleDisconnect code reason s) \<and>
   (heartbeatInterval s \<longrightarrow> List.member (effects (handleDisconnect code reason s)) (ClearTimer HeartbeatTimer)) \<and>
   step s (SocketClosed code reason) = handleDisconnect code reason s"
  by (simp add: handleDisconnect_def Let_def tool_defs scheduleReconnect_def stopHeartbeat_def)

theorem close_ends_session_witness:
  "\<not> heartbeatInterval (handleDisconnect 1000 []
       (step (run (mounted ''http:'' ''localhost'' []) [ClickConnect True, ReadyStateChanged OPEN, SocketOpened]) ClickStartVoiceChat)) \<and>
   \<not> isVoiceChatting (handleDisconnect 1000 []
       (step (run (mounted ''http:'' ''localhost'' []) [ClickConnect True, ReadyStateChanged OPEN, SocketOpened]) ClickStartVoiceChat)) \<and>
   isVoiceChatting (step (run (mounted ''http:'' ''localhost'' []) [ClickConnect True, ReadyStateChanged OPEN, SocketOpened]) ClickStartVoiceChat) \<and>
   heartbeatInterval (step (run (mounted ''http:'' ''localhost'' []) [ClickConnect True, ReadyStateChanged OPEN, SocketOpened]) ClickStartVoiceChat) \<and>
   List.member
     (effects (handleDisconnect 1000 []
       (step (run (mounted ''http:'' ''localhost'' []) [ClickConnect True, ReadyStateChanged OPEN, SocketOpened]) ClickStartVoiceChat)))
     (ClearTimer HeartbeatTimer)"
  using close_ends_session[of 1000 "[]"
      "step (run (mounted ''http:'' ''localhost'' []) [ClickConnect True, ReadyStateChanged OPEN, SocketOpened]) ClickStartVoiceChat"]
  by (simp add: eval_defs)

subsection \<open>Parameters\<close>

text \<open>
  Claim C5. \<^verbatim>\<open>updateParams\<close> gives the socket one \<^verbatim>\<open>set_params\<close> frame, with the selected
  model and the history id, when the socket of the ref is open and both values are not empty,
  and then also logs that the parameters were updated. In every other case it gives the
  socket nothing and the only change of the state is one log line, one of the three
  diagnostics.
\<close>

theorem set_params_sent_iff:
  "sentFrames (effects (updateParams s)) =
     sentFrames (effects s) @
       (if socket s = Some OPEN \<and> selectedModel s \<noteq> [] \<and> historyId s \<noteq> []
        then [SetParams (selectedModel s) (historyId s)] else []) \<and>
   (socket s = Some OPEN \<and> selectedModel s \<noteq> [] \<and> historyId s \<noteq> [] \<longrightarrow>
      updateParams s =
        s\<lparr>effects := effects s @ [SocketSend (SetParams (selectedModel s) (historyId s))],
          logs := logs s @ [LogParamsUpdated]\<rparr>) \<and>
   (\<not> (socket s = Some OPEN \<and> selectedModel s \<noteq> [] \<and> historyId s \<noteq> []) \<longrightarrow>
      (\<exists>l. List.member [LogParamsNotConnected, LogNoModel, LogNoHistoryId] l \<and>
           updateParams s = s\<lparr>logs := logs s @ [l]\<rparr>))"
proof (intro conjI impI)
  show "sentFrames (effects (updateParams s)) =
     sentFrames (effects s) @
       (if socket s = Some OPEN \<and> selectedModel s \<noteq> [] \<and> historyId s \<noteq> []
        then [SetParams (selectedModel s) (historyId s)] else [])"
    by (simp add: updateParams_def tool_defs)
next
  assume "socket s = Some OPEN \<and> selectedModel s \<noteq> [] \<and> historyId s \<noteq> []"
  then show "updateParams s =
        s\<lparr>effects := effects s @ [SocketSend (SetParams (selectedModel s) (historyId s))],
          logs := logs s @ [LogParamsUpdated]\<rparr>"
    by (simp add: updateParams_def tool_defs)
next
  assume n: "\<not> (socket s = Some OPEN \<and> selectedModel s \<noteq> [] \<and> historyId s \<noteq> [])"
  let ?l = "if socket s \<noteq> Some OPEN then LogParamsNotConnected
            else if selectedModel s = [] then LogNoModel else LogNoHistoryId"
  from n have "updateParams s = s\<lparr>logs := logs s @ [?l]\<rparr>"
    by (auto simp add: updateParams_def tool_defs)
  moreover have "List.member [LogParamsNotConnected, LogNoModel, LogNoHistoryId] ?l"
    by simp
  ultimately show "\<exists>l. List.member [LogParamsNotConnected, LogNoModel, LogNoHistoryId] l \<and>
           updateParams s = s\<lparr>logs := logs s @ [l]\<rparr>" by blast
qed

theorem set_params_sent_iff_witness:
  "sentFrames (effects (updateParams
      ((mounted ''http:'' ''localhost'' [])\<lparr>socket := Some OPEN, selectedModel := ''m1'', historyId := ''h1''\<rparr>))) =
     [SetParams ''m1'' ''h1''] \<and>
   sentFrames (effects (updateParams
      ((mounted ''http:'' ''localhost'' [])\<lparr>socket := Some OPEN, selectedModel := ''m1''\<rparr>))) = []"
  using set_params_sent_iff[of
      "(mounted ''http:'' ''localhost'' [])\<lparr>socket := Some OPEN, selectedModel := ''m1'', historyId := ''h1''\<rparr>"]
    set_params_sent_iff[of
      "(mounted ''http:'' ''localhost'' [])\<lparr>socket := Some OPEN, selectedModel := ''m1''\<rparr>"]
  by (simp add: eval_defs)

subsection \<open>Streaming text\<close>

text \<open>
  Claim C7, at its own input. \<^verbatim>\<open>handleLLMStreamChunk\<close> looks for the open entry with
  \<^verbatim>\<open>document.querySelector\<close>, but the template never gives an element the class of an entry.
  On a page \<open>c\<close> without an element of that class, the two chunks "He" and "llo" sent to the
  mounted component leave two assistant entries, the first with the text "Hello" and the
  second empty; on a page that has such an element they leave no entry at all.
\<close>

theorem two_chunks_two_entries:
  "conversationHistory (run (mounted p h c)
      [SocketMessage (Decoded (LlmStreamChunk (Some ''He''))),
       SocketMessage (Decoded (LlmStreamChunk (Some ''llo'')))]) =
     (if List.member c ''assistant-response-building''
      then []
      else [\<lparr>msg_text = Some ''Hello'', msg_sender = Assistant, className = ''assistant-response-building''\<rparr>,
            \<lparr>msg_text = Some [], msg_sender = Assistant, className = ''assistant-response-building''\<rparr>])"
  by (simp add: eval_defs querySelector_def renderedClasses_def)

end
